theory Spec2Isabelle
  imports Complex_Main "HOL-Library.Char_ord" "HOL-Library.List_Lexorder"
begin

section \<open>ExpiryTracker: data model\<close>

text \<open>
  A row of the table \<open>expiry_items\<close>, as the record store delivers it to the client
  (initial select and change-feed payloads). The \<open>DATE\<close> column \<open>expiry_date\<close> is kept as
  the number of days between 1970-01-01 and that calendar date, so that the order of the
  column is the order of the integers; the two timestamps are milliseconds since the epoch.
  The columns \<open>id\<close> and \<open>notes\<close> are the fields \<open>item_id\<close> and \<open>item_notes\<close>.
\<close>

record item =
  item_id :: string
  user_id :: string
  name :: string
  category :: "string option"
  expiry_date :: int
  image_url :: "string option"
  item_notes :: "string option"
  quantity :: int
  created_at :: int
  updated_at :: int

text \<open>
  A value produced by \<open>JSON.parse\<close>, and a row of the bulk insert that \<open>handleImport\<close>
  sends to the record store. A field of the row that is \<open>undefined\<close> is \<open>None\<close>.
\<close>

datatype json =
    JNull
  | JBool bool
  | JNum rat
  | JStr string
  | JArr "json list"
  | JObj "(string \<times> json) list"

record insert_row =
  row_name :: "json option"
  row_category :: "json option"
  row_quantity :: json
  row_expiry_date :: "json option"
  row_notes :: "json option"
  row_user_id :: string

text \<open>
  The module state of \<open>dashboard.js\<close>: the signed-in user, the in-memory list \<open>items\<close>,
  and, as logs of the effects, the toasts shown so far and the bulk inserts sent to the
  record store.
\<close>

record dashboard =
  currentUser_id :: string
  items :: "item list"
  toasts :: "(string \<times> string) list"
  remote_inserts :: "insert_row list list"

definition showToast :: "string \<Rightarrow> string \<Rightarrow> dashboard \<Rightarrow> dashboard" where
  "showToast message type s = s\<lparr>toasts := toasts s @ [(message, type)]\<rparr>"

section \<open>Date arithmetic (utils.js)\<close>

text \<open>
  A JavaScript \<open>Date\<close> is its time value, an integer count of milliseconds since the epoch.
  The host's time zone is a parameter: the two offset functions of ECMAScript,
  \<open>LocalTZA(t, true)\<close>, the milliseconds local time is ahead of UTC at the instant \<open>t\<close>, and
  \<open>LocalTZA(t, false)\<close>, the same for a local time \<open>t\<close> (a local time that a transition
  skips or repeats is read with the offset in force before the transition).
\<close>

record zone =
  offset_at_utc :: "int \<Rightarrow> int"
  offset_at_local :: "int \<Rightarrow> int"

definition msPerDay :: int where
  "msPerDay = 1000 * 60 * 60 * 24"

definition LocalTime :: "zone \<Rightarrow> int \<Rightarrow> int" where
  "LocalTime z t = t + offset_at_utc z t"

definition UTC :: "zone \<Rightarrow> int \<Rightarrow> int" where
  "UTC z t = t - offset_at_local z t"

definition Day :: "int \<Rightarrow> int" where
  "Day t = t div msPerDay"

text \<open>
  \<open>setHours(0, 0, 0, 0)\<close>: the time value becomes \<open>UTC(MakeDate(Day(LocalTime(t)), 0))\<close>, the
  instant of the local midnight that begins the local day of \<open>t\<close>.
  \<open>new Date(s)\<close> on a date-only string \<open>YYYY-MM-DD\<close> is UTC midnight of that day.
\<close>

definition setHours0 :: "zone \<Rightarrow> int \<Rightarrow> int" where
  "setHours0 z t = UTC z (Day (LocalTime z t) * msPerDay)"

definition newDate :: "int \<Rightarrow> int" where
  "newDate d = d * msPerDay"

text \<open>
  \<open>Math.ceil(a / b)\<close> for a positive divisor, in exact arithmetic. In \<open>daysUntilExpiry\<close> the
  dividend is a whole number of milliseconds and the divisor is \<open>msPerDay\<close>; a quotient
  that is not an integer is at least \<open>1 / msPerDay\<close> away from one, more than the rounding
  error of the double-precision division as long as the two dates are less than \<open>2 ^ 26\<close>
  days apart, so the source's \<open>Math.ceil\<close> gives the same integer.
\<close>

definition Math_ceil_div :: "int \<Rightarrow> int \<Rightarrow> int" where
  "Math_ceil_div a b = - ((- a) div b)"

text \<open>\<open>daysUntilExpiry(expiryDate)\<close>; the clock reading \<open>new Date()\<close> is the argument \<open>now\<close>.\<close>

definition daysUntilExpiry :: "zone \<Rightarrow> int \<Rightarrow> int \<Rightarrow> int" where
  "daysUntilExpiry tz now expiryDate =
     (let today = setHours0 tz now;
          expiry = setHours0 tz (newDate expiryDate);
          diffTime = expiry - today;
          diffDays = Math_ceil_div diffTime (1000 * 60 * 60 * 24)
      in diffDays)"

text \<open>Decimal rendering of a number inside a template literal.\<close>

fun showNat :: "nat \<Rightarrow> string" where
  "showNat n =
     (if n < 10 then [char_of (48 + n)]
      else showNat (n div 10) @ [char_of (48 + n mod 10)])"

definition showInt :: "int \<Rightarrow> string" where
  "showInt i = (if i < 0 then CHR ''-'' # showNat (nat (- i)) else showNat (nat i))"

record expiry_status =
  status :: string
  label :: string
  css_class :: string

definition getExpiryStatus :: "zone \<Rightarrow> int \<Rightarrow> int \<Rightarrow> expiry_status" where
  "getExpiryStatus tz now expiryDate =
     (let days = daysUntilExpiry tz now expiryDate in
      if days < 0 then
        \<lparr>status = ''expired'', label = ''Expired'', css_class = ''status-expired''\<rparr>
      else if days = 0 then
        \<lparr>status = ''today'', label = ''Expires Today'', css_class = ''status-today''\<rparr>
      else if days \<le> 7 then
        \<lparr>status = ''soon'', label = showInt days @ '' days left'', css_class = ''status-soon''\<rparr>
      else if days \<le> 30 then
        \<lparr>status = ''warning'', label = showInt days @ '' days left'', css_class = ''status-warning''\<rparr>
      else
        \<lparr>status = ''good'', label = showInt days @ '' days left'', css_class = ''status-good''\<rparr>)"

text \<open>
  Zones for the statements below. A zone whose offset never changes; the zone of New York
  in 2024, five hours behind UTC, four from 10 March 02:00 to 3 November 02:00 local time
  (days 19792 and 20030 of the epoch); and the condition that a zone has the offset \<open>c\<close>
  at the instant \<open>t\<close> and at the local midnight before it.
\<close>

definition fixed_zone :: "int \<Rightarrow> zone" where
  "fixed_zone c = \<lparr>offset_at_utc = (\<lambda>t. c), offset_at_local = (\<lambda>t. c)\<rparr>"


definition offset_is :: "zone \<Rightarrow> int \<Rightarrow> int \<Rightarrow> bool" where
  "offset_is z c t =
     (offset_at_utc z t = c \<and> offset_at_local z (Day (t + c) * msPerDay) = c)"

section \<open>The in-memory item list (dashboard.js)\<close>

text \<open>
  The answer of the record store to the initial select: \<open>{ data, error }\<close>. The query asks
  for the rows of the current user ordered by \<open>expiry_date\<close> ascending.
\<close>

record select_response =
  data :: "item list option"
  error :: "string option"

text \<open>
  \<open>loadItems\<close>: on an error the exception is caught, a toast is shown and \<open>items\<close> keeps its
  value; otherwise \<open>items = data || []\<close>.
\<close>

definition loadItems :: "select_response \<Rightarrow> dashboard \<Rightarrow> dashboard" where
  "loadItems r s =
     (case error r of
        Some e \<Rightarrow> showToast ''Failed to load items'' ''error'' s
      | None \<Rightarrow> s\<lparr>items := (case data r of Some d \<Rightarrow> d | None \<Rightarrow> [])\<rparr>)"

text \<open>
  A change-feed payload \<open>{ eventType, new, old }\<close>: the new row for \<open>INSERT\<close> and \<open>UPDATE\<close>,
  and for \<open>DELETE\<close> the \<open>id\<close> of the old row, the only field of \<open>old\<close> that is read.
  \<open>handleRealtimeChange\<close> ends with \<open>renderItems()\<close> and \<open>updateCounts()\<close>, which only read
  \<open>items\<close> to draw the page and are not part of the state.
\<close>

datatype payload = INSERT item | UPDATE item | DELETE string

text \<open>\<open>Array.prototype.findIndex\<close>: the first index whose element satisfies \<open>p\<close>, or \<open>-1\<close>.\<close>

fun findIndex_from :: "('a \<Rightarrow> bool) \<Rightarrow> int \<Rightarrow> 'a list \<Rightarrow> int" where
  "findIndex_from p i [] = - 1"
| "findIndex_from p i (x # xs) = (if p x then i else findIndex_from p (i + 1) xs)"

definition findIndex :: "('a \<Rightarrow> bool) \<Rightarrow> 'a list \<Rightarrow> int" where
  "findIndex p xs = findIndex_from p 0 xs"

definition handleRealtimeChange :: "payload \<Rightarrow> dashboard \<Rightarrow> dashboard" where
  "handleRealtimeChange p s =
     (case p of
        INSERT newRecord \<Rightarrow>
          showToast ''New item added'' ''success'' (s\<lparr>items := items s @ [newRecord]\<rparr>)
      | UPDATE newRecord \<Rightarrow>
          (let updateIndex = findIndex (\<lambda>item. item_id item = item_id newRecord) (items s) in
           if updateIndex \<noteq> - 1 then
             showToast ''Item updated'' ''info''
               (s\<lparr>items := (items s)[nat updateIndex := newRecord]\<rparr>)
           else s)
      | DELETE oldRecord_id \<Rightarrow>
          showToast ''Item deleted'' ''info''
            (s\<lparr>items := filter (\<lambda>item. item_id item \<noteq> oldRecord_id) (items s)\<rparr>))"

text \<open>The store at session start, and a session as a sequence of loads and feed events.\<close>

definition init_dashboard :: "string \<Rightarrow> dashboard" where
  "init_dashboard uid = \<lparr>currentUser_id = uid, items = [], toasts = [], remote_inserts = []\<rparr>"

datatype operation = Load select_response | Event payload

fun apply_operation :: "operation \<Rightarrow> dashboard \<Rightarrow> dashboard" where
  "apply_operation (Load r) s = loadItems r s"
| "apply_operation (Event p) s = handleRealtimeChange p s"

fun run :: "operation list \<Rightarrow> dashboard \<Rightarrow> dashboard" where
  "run [] s = s"
| "run (x # xs) s = run xs (apply_operation x s)"

text \<open>A row for examples: only the id and the expiry date vary.\<close>

definition sample_item :: "string \<Rightarrow> int \<Rightarrow> item" where
  "sample_item i d =
     \<lparr>item_id = i, user_id = ''u1'', name = ''Milk'', category = None, expiry_date = d,
      image_url = None, item_notes = None, quantity = 1, created_at = 0, updated_at = 0\<rparr>"

text \<open>
  Sessions in which the feed never repeats an id: every successful load delivers rows with
  pairwise different ids, and every \<open>INSERT\<close> carries an id that is not in the list when the
  event is applied.
\<close>

fun operation_fresh :: "operation \<Rightarrow> dashboard \<Rightarrow> bool" where
  "operation_fresh (Load r) s =
     (error r = None \<longrightarrow> distinct (map item_id (case data r of Some d \<Rightarrow> d | None \<Rightarrow> [])))"
| "operation_fresh (Event (INSERT n)) s = (item_id n \<notin> set (map item_id (items s)))"
| "operation_fresh (Event (UPDATE n)) s = True"
| "operation_fresh (Event (DELETE x)) s = True"

fun all_fresh :: "operation list \<Rightarrow> dashboard \<Rightarrow> bool" where
  "all_fresh [] s = True"
| "all_fresh (x # xs) s = (operation_fresh x s \<and> all_fresh xs (apply_operation x s))"

text \<open>
  The order the specification asks of a snapshot: ascending by expiry date, ties broken by
  id (strings compared lexicographically).
\<close>

definition spec_ordered :: "item list \<Rightarrow> bool" where
  "spec_ordered xs =
     sorted_wrt (\<lambda>a b. expiry_date a < expiry_date b
                     \<or> (expiry_date a = expiry_date b \<and> item_id a \<le> item_id b)) xs"

text \<open>
  Sessions in which the order by expiry date needs no re-sorting: a successful load delivers
  the rows ascending by \<open>expiry_date\<close>, as the query asks; an \<open>INSERT\<close> carries a date not
  earlier than any in the list; an \<open>UPDATE\<close> that finds a row to replace carries the date
  that row has.
\<close>

fun operation_in_order :: "operation \<Rightarrow> dashboard \<Rightarrow> bool" where
  "operation_in_order (Load r) s =
     (error r = None \<longrightarrow> sorted (map expiry_date (case data r of Some d \<Rightarrow> d | None \<Rightarrow> [])))"
| "operation_in_order (Event (INSERT n)) s =
     (\<forall>x \<in> set (items s). expiry_date x \<le> expiry_date n)"
| "operation_in_order (Event (UPDATE n)) s =
     (let updateIndex = findIndex (\<lambda>item. item_id item = item_id n) (items s) in
      updateIndex \<noteq> - 1 \<longrightarrow> expiry_date (items s ! nat updateIndex) = expiry_date n)"
| "operation_in_order (Event (DELETE x)) s = True"

fun all_in_order :: "operation list \<Rightarrow> dashboard \<Rightarrow> bool" where
  "all_in_order [] s = True"
| "all_in_order (x # xs) s = (operation_in_order x s \<and> all_in_order xs (apply_operation x s))"

section \<open>Notifications (notifications.js)\<close>

text \<open>
  The options a caller passes to \<open>showNotification\<close>, and the notification handed to the
  host: the caller's options spread over the defaults \<open>icon\<close>, \<open>badge\<close> and \<open>vibrate\<close>.
\<close>

record notification_options =
  opt_body :: string
  opt_tag :: string
  opt_requireInteraction :: "bool option"

record notification =
  title :: string
  body :: string
  tag :: string
  requireInteraction :: "bool option"
  icon :: string
  badge :: string
  vibrate :: "nat list"

text \<open>
  The module state: \<open>notificationPermission\<close>, and the log of the notifications created
  with \<open>new Notification\<close>.
\<close>

record notifier =
  notificationPermission :: string
  shown :: "notification list"

definition showNotification :: "string \<Rightarrow> notification_options \<Rightarrow> notifier \<Rightarrow> notifier" where
  "showNotification t options n =
     (if notificationPermission n \<noteq> ''granted'' then n
      else n\<lparr>shown := shown n @
             [\<lparr>title = t, body = opt_body options, tag = opt_tag options,
               requireInteraction = opt_requireInteraction options,
               icon = ''/icon.png'', badge = ''/badge.png'', vibrate = [200, 100, 200]\<rparr>]\<rparr>)"

text \<open>
  The body of the \<open>forEach\<close> in \<open>checkExpiringItems\<close>. The loop is synchronous, and one
  clock reading \<open>now\<close> stands for the readings \<open>daysUntilExpiry\<close> takes during one scan.
\<close>

definition notifyItem :: "zone \<Rightarrow> int \<Rightarrow> item \<Rightarrow> notifier \<Rightarrow> notifier" where
  "notifyItem tz now item n =
     (let days = daysUntilExpiry tz now (expiry_date item) in
      if days = 0 then
        showNotification ''Item Expiring Today!''
          \<lparr>opt_body = name item @ '' expires today!'', opt_tag = ''expiry-'' @ item_id item,
           opt_requireInteraction = Some True\<rparr> n
      else if days = 3 then
        showNotification ''Item Expiring Soon''
          \<lparr>opt_body = name item @ '' expires in 3 days'', opt_tag = ''expiry-'' @ item_id item,
           opt_requireInteraction = None\<rparr> n
      else if days = 7 then
        showNotification ''Upcoming Expiry''
          \<lparr>opt_body = name item @ '' expires in 1 week'', opt_tag = ''expiry-'' @ item_id item,
           opt_requireInteraction = None\<rparr> n
      else n)"

text \<open>
  \<open>checkExpiringItems\<close>, one scan. \<open>user\<close> is the id of the signed-in user (\<open>None\<close>: nobody is
  signed in, the scan returns) and \<open>r\<close> the answer to the select of that user's rows. An error
  answer and a \<open>null\<close> list both end in the \<open>catch\<close>, which only logs.
\<close>

definition checkExpiringItems ::
  "zone \<Rightarrow> int \<Rightarrow> string option \<Rightarrow> select_response \<Rightarrow> notifier \<Rightarrow> notifier" where
  "checkExpiringItems tz now user r n =
     (case user of
        None \<Rightarrow> n
      | Some u \<Rightarrow>
          (case error r of
             Some e \<Rightarrow> n
           | None \<Rightarrow>
               (case data r of
                  None \<Rightarrow> n
                | Some rows \<Rightarrow> fold (notifyItem tz now) rows n)))"

text \<open>
  The scans of one process lifetime (the one at start-up, the six-hourly ones and the daily
  ones at 09:00), each with the clock reading at which it runs and what the backend
  answered.
\<close>

fun scans ::
  "zone \<Rightarrow> (int \<times> string option \<times> select_response) list \<Rightarrow> notifier \<Rightarrow> notifier" where
  "scans tz [] n = n"
| "scans tz ((now, user, r) # rest) n = scans tz rest (checkExpiringItems tz now user r n)"

text \<open>The number of alerts a scan has to raise: the rows at 0, 3 or 7 days.\<close>

definition due :: "zone \<Rightarrow> int \<Rightarrow> string option \<Rightarrow> select_response \<Rightarrow> nat" where
  "due tz now user r =
     (case (user, error r, data r) of
        (Some u, None, Some rows) \<Rightarrow>
          length (filter (\<lambda>i. daysUntilExpiry tz now (expiry_date i) \<in> {0, 3, 7}) rows)
      | _ \<Rightarrow> 0)"

text \<open>
  Those rows themselves, in the order of the answer, and the title that goes with a day
  count of 0, 3 or 7.
\<close>

definition due_rows :: "zone \<Rightarrow> int \<Rightarrow> string option \<Rightarrow> select_response \<Rightarrow> item list" where
  "due_rows tz now user r =
     (case (user, error r, data r) of
        (Some u, None, Some rows) \<Rightarrow>
          filter (\<lambda>i. daysUntilExpiry tz now (expiry_date i) \<in> {0, 3, 7}) rows
      | _ \<Rightarrow> [])"

definition alert_title :: "int \<Rightarrow> string" where
  "alert_title days =
     (if days = 0 then ''Item Expiring Today!''
      else if days = 3 then ''Item Expiring Soon''
      else ''Upcoming Expiry'')"

section \<open>Import (dashboard.js)\<close>

datatype js_error = TypeError | SyntaxError | Error string

text \<open>JavaScript truthiness of a parsed value, as \<open>||\<close> tests it.\<close>

fun truthy :: "json \<Rightarrow> bool" where
  "truthy JNull = False"
| "truthy (JBool b) = b"
| "truthy (JNum x) = (x \<noteq> 0)"
| "truthy (JStr t) = (t \<noteq> [])"
| "truthy (JArr xs) = True"
| "truthy (JObj kvs) = True"

text \<open>
  Reading one of the properties \<open>name\<close>, \<open>category\<close>, \<open>quantity\<close>, \<open>expiry_date\<close>, \<open>notes\<close> of a
  value other than \<open>null\<close>: an object gives the member or \<open>undefined\<close>, every other value
  \<open>undefined\<close>.
\<close>

fun getProp :: "json \<Rightarrow> string \<Rightarrow> json option" where
  "getProp (JObj kvs) k = map_of kvs k"
| "getProp v k = None"

fun isArray :: "json \<Rightarrow> bool" where
  "isArray (JArr xs) = True"
| "isArray v = False"

text \<open>
  The arrow function of \<open>importedItems.map\<close>; reading a property of \<open>null\<close> throws a
  \<open>TypeError\<close>.
\<close>

definition toInsertRow :: "string \<Rightarrow> json \<Rightarrow> js_error + insert_row" where
  "toInsertRow uid item =
     (if item = JNull then Inl TypeError
      else Inr \<lparr>row_name = getProp item ''name'',
                row_category = getProp item ''category'',
                row_quantity =
                  (case getProp item ''quantity'' of
                     Some q \<Rightarrow> if truthy q then q else JNum 1
                   | None \<Rightarrow> JNum 1),
                row_expiry_date = getProp item ''expiry_date'',
                row_notes = getProp item ''notes'',
                row_user_id = uid\<rparr>)"

fun map_throwing :: "('a \<Rightarrow> js_error + 'b) \<Rightarrow> 'a list \<Rightarrow> js_error + 'b list" where
  "map_throwing f [] = Inr []"
| "map_throwing f (x # xs) =
     (case f x of
        Inl e \<Rightarrow> Inl e
      | Inr y \<Rightarrow> (case map_throwing f xs of Inl e \<Rightarrow> Inl e | Inr ys \<Rightarrow> Inr (y # ys)))"

text \<open>
  What the file picker and \<open>JSON.parse(await file.text())\<close> give \<open>handleImport\<close>: no file,
  a text that does not parse (a \<open>SyntaxError\<close>), or the parsed value.
\<close>

datatype file_text = Unparsable | Parsed json

text \<open>
  \<open>handleImport\<close>. \<open>insert_error\<close> is the \<open>error\<close> of the record store's answer to the bulk
  insert, read only if the insert is sent. Every exception ends in the one \<open>catch\<close>.
\<close>

definition handleImport :: "file_text option \<Rightarrow> string option \<Rightarrow> dashboard \<Rightarrow> dashboard" where
  "handleImport file insert_error s =
     (case file of
        None \<Rightarrow> s
      | Some Unparsable \<Rightarrow> showToast ''Failed to import data'' ''error'' s
      | Some (Parsed importedItems) \<Rightarrow>
          (if \<not> isArray importedItems then showToast ''Failed to import data'' ''error'' s
           else
             (case map_throwing (toInsertRow (currentUser_id s))
                     (case importedItems of JArr xs \<Rightarrow> xs | _ \<Rightarrow> []) of
                Inl e \<Rightarrow> showToast ''Failed to import data'' ''error'' s
              | Inr itemsToInsert \<Rightarrow>
                  (let s' = s\<lparr>remote_inserts := remote_inserts s @ [itemsToInsert]\<rparr> in
                   case insert_error of
                     Some e \<Rightarrow> showToast ''Failed to import data'' ''error'' s'
                   | None \<Rightarrow>
                       showToast (''Imported '' @ showNat (length itemsToInsert)
                                  @ '' items successfully'') ''success'' s'))))"

text \<open>An import payload of the expected shape: an array whose elements are all objects.\<close>

fun isRecord :: "json \<Rightarrow> bool" where
  "isRecord (JObj kvs) = True"
| "isRecord v = False"

fun isArrayOfRecords :: "json \<Rightarrow> bool" where
  "isArrayOfRecords (JArr xs) = list_all isRecord xs"
| "isArrayOfRecords v = False"

section \<open>Properties of the item list\<close>

lemma items_showToast [simp]: "items (showToast m t s) = items s"
  by (simp add: showToast_def)

lemma findIndex_from_none:
  "findIndex_from p i xs = - 1 \<Longrightarrow> 0 \<le> i \<Longrightarrow> \<forall>x \<in> set xs. \<not> p x"
  by (induction xs arbitrary: i) (auto split: if_splits)

lemma findIndex_from_absent:
  "\<forall>x \<in> set xs. \<not> p x \<Longrightarrow> findIndex_from p i xs = - 1"
  by (induction xs arbitrary: i) auto

lemma findIndex_from_found:
  "\<exists>x \<in> set xs. p x \<Longrightarrow> 0 \<le> i \<Longrightarrow>
     i \<le> findIndex_from p i xs \<and> nat (findIndex_from p i xs - i) < length xs
     \<and> p (xs ! nat (findIndex_from p i xs - i))"
proof (induction xs arbitrary: i)
  case Nil
  then show ?case by simp
next
  case (Cons x xs)
  show ?case
  proof (cases "p x")
    case True
    then show ?thesis by simp
  next
    case False
    with Cons.prems have ex: "\<exists>x \<in> set xs. p x" by auto
    from Cons.prems have i1: "0 \<le> i + 1" by simp
    note ih = Cons.IH [OF ex i1]
    from ih have "nat (findIndex_from p (i + 1) xs - i) = Suc (nat (findIndex_from p (i + 1) xs - (i + 1)))"
      by linarith
    with ih False show ?thesis by simp
  qed
qed

lemma findIndex_absent_iff: "findIndex p xs = - 1 \<longleftrightarrow> (\<forall>x \<in> set xs. \<not> p x)"
  using findIndex_from_none [of p 0 xs] findIndex_from_absent [of xs p 0]
  by (auto simp: findIndex_def)

lemma findIndex_found:
  assumes "\<exists>x \<in> set xs. p x"
  shows "0 \<le> findIndex p xs" "nat (findIndex p xs) < length xs" "p (xs ! nat (findIndex p xs))"
  using findIndex_from_found [OF assms, of 0] by (simp_all add: findIndex_def)

lemma items_INSERT: "items (handleRealtimeChange (INSERT n) s) = items s @ [n]"
  by (simp add: handleRealtimeChange_def)

lemma items_DELETE: "items (handleRealtimeChange (DELETE x) s) = filter (\<lambda>i. item_id i \<noteq> x) (items s)"
  by (simp add: handleRealtimeChange_def)

lemma items_UPDATE_absent:
  assumes "item_id n \<notin> item_id ` set (items s)"
  shows "handleRealtimeChange (UPDATE n) s = s"
proof -
  from assms have "\<forall>x \<in> set (items s). \<not> item_id x = item_id n"
    by (metis imageI)
  then have "findIndex (\<lambda>i. item_id i = item_id n) (items s) = - 1"
    using findIndex_absent_iff [of "\<lambda>i. item_id i = item_id n" "items s"] by blast
  then show ?thesis
    by (simp add: handleRealtimeChange_def Let_def)
qed

lemma items_UPDATE_present:
  assumes "item_id n \<in> item_id ` set (items s)"
  shows "items (handleRealtimeChange (UPDATE n) s) =
     (items s)[nat (findIndex (\<lambda>i. item_id i = item_id n) (items s)) := n]"
proof -
  from assms have "\<not> (\<forall>x \<in> set (items s). \<not> item_id x = item_id n)"
    by auto
  then have "findIndex (\<lambda>i. item_id i = item_id n) (items s) \<noteq> - 1"
    using findIndex_absent_iff [of "\<lambda>i. item_id i = item_id n" "items s"] by blast
  then show ?thesis
    by (simp add: handleRealtimeChange_def Let_def)
qed

lemma map_id_UPDATE:
  "map item_id (items (handleRealtimeChange (UPDATE n) s)) = map item_id (items s)"
proof (cases "item_id n \<in> item_id ` set (items s)")
  case True
  then have ex: "\<exists>x \<in> set (items s). item_id x = item_id n" by auto
  from findIndex_found [OF ex] show ?thesis
    by (simp add: items_UPDATE_present [OF True] map_update list_update_same_conv)
next
  case False
  then show ?thesis by (simp add: items_UPDATE_absent)
qed


lemma distinct_apply_operation:
  assumes d: "distinct (map item_id (items s))" and f: "operation_fresh x s"
  shows "distinct (map item_id (items (apply_operation x s)))"
proof (cases x)
  case (Load r)
  with d f show ?thesis
    by (cases "error r") (auto simp: loadItems_def)
next
  case (Event p)
  show ?thesis
  proof (cases p)
    case (INSERT n)
    with Event d f show ?thesis by (simp add: items_INSERT)
  next
    case (UPDATE n)
    with Event d show ?thesis by (simp add: map_id_UPDATE)
  next
    case (DELETE i)
    with Event d show ?thesis by (simp add: items_DELETE distinct_map_filter)
  qed
qed

lemma distinct_run:
  "distinct (map item_id (items s)) \<Longrightarrow> all_fresh ops s \<Longrightarrow>
   distinct (map item_id (items (run ops s)))"
  by (induction ops arbitrary: s) (simp_all add: distinct_apply_operation)

subsection \<open>C1: a repeated insert\<close>

text \<open>
  Claim C1, as amended: \<open>INSERT\<close> appends the delivered row at the end of the list whether
  or not its id is already there, so applying the same \<open>INSERT\<close> a second time gives the
  list after the first one followed by one more copy of the row.
\<close>

theorem insert_twice_appends_twice:
  "items (handleRealtimeChange (INSERT n) s) = items s @ [n] \<and>
   items (handleRealtimeChange (INSERT n) (handleRealtimeChange (INSERT n) s))
     = items (handleRealtimeChange (INSERT n) s) @ [n]"
  by (simp add: items_INSERT)

text \<open>
  Claim C1 as stated fails: from the empty store, the same \<open>INSERT\<close> applied twice does
  not give the list it gives applied once.
\<close>

theorem insert_not_idempotent:
  "items (handleRealtimeChange (INSERT (sample_item ''x'' 10))
       (handleRealtimeChange (INSERT (sample_item ''x'' 10)) (init_dashboard ''u1'')))
   \<noteq> items (handleRealtimeChange (INSERT (sample_item ''x'' 10)) (init_dashboard ''u1''))"
  by (simp add: items_INSERT)

subsection \<open>C2: one row per id\<close>

text \<open>
  Claim C2, as amended: starting from the empty store, after any sequence of loads and feed
  events in which every successful load delivers pairwise different ids and every \<open>INSERT\<close>
  carries an id that is not in the list when it is applied, the list holds at most one row
  per id. \<open>UPDATE\<close> and \<open>DELETE\<close> keep the ids distinct without any condition.
\<close>

theorem ids_distinct_when_fresh:
  "all_fresh ops (init_dashboard uid) \<Longrightarrow>
   distinct (map item_id (items (run ops (init_dashboard uid))))"
  by (rule distinct_run) (simp_all add: init_dashboard_def)

text \<open>A session that meets the condition: a load, then an insert, an update and a delete.\<close>

theorem ids_distinct_when_fresh_witness:
  "all_fresh [Load \<lparr>data = Some [sample_item ''a'' 5, sample_item ''b'' 7], error = None\<rparr>,
             Event (INSERT (sample_item ''c'' 3)),
             Event (UPDATE (sample_item ''a'' 9)),
             Event (DELETE ''b'')] (init_dashboard ''u1'')
   \<and> map item_id (items (run
            [Load \<lparr>data = Some [sample_item ''a'' 5, sample_item ''b'' 7], error = None\<rparr>,
             Event (INSERT (sample_item ''c'' 3)),
             Event (UPDATE (sample_item ''a'' 9)),
             Event (DELETE ''b'')] (init_dashboard ''u1''))) = [''a'', ''c'']
   \<and> distinct (map item_id (items (run
            [Load \<lparr>data = Some [sample_item ''a'' 5, sample_item ''b'' 7], error = None\<rparr>,
             Event (INSERT (sample_item ''c'' 3)),
             Event (UPDATE (sample_item ''a'' 9)),
             Event (DELETE ''b'')] (init_dashboard ''u1''))))"
proof -
  let ?ops = "[Load \<lparr>data = Some [sample_item ''a'' 5, sample_item ''b'' 7], error = None\<rparr>,
             Event (INSERT (sample_item ''c'' 3)),
             Event (UPDATE (sample_item ''a'' 9)),
             Event (DELETE ''b'')]"
  have f: "all_fresh ?ops (init_dashboard ''u1'')"
    by (simp add: init_dashboard_def loadItems_def handleRealtimeChange_def showToast_def
        findIndex_def sample_item_def)
  have v: "map item_id (items (run ?ops (init_dashboard ''u1''))) = [''a'', ''c'']"
    by (simp add: init_dashboard_def loadItems_def handleRealtimeChange_def showToast_def
        findIndex_def sample_item_def)
  from f v ids_distinct_when_fresh [OF f] show ?thesis by blast
qed

text \<open>
  Claim C2 as stated fails: from the empty store, two \<open>INSERT\<close> events for the same id leave
  two rows with that id.
\<close>

theorem duplicate_insert_breaks_uniqueness:
  "\<not> distinct (map item_id (items (run
       [Event (INSERT (sample_item ''x'' 10)), Event (INSERT (sample_item ''x'' 10))]
       (init_dashboard ''u1''))))"
  by (simp add: items_INSERT sample_item_def)


subsection \<open>C3: an update for an id that is not in the list\<close>

text \<open>
  Claim C3, as amended: an \<open>UPDATE\<close> event carrying a row whose id is not in the list is
  ignored: the state is left as it was (no row is added and no toast is shown), so the
  snapshot holds no row with that id.
\<close>

theorem update_of_absent_id_is_ignored:
  assumes "item_id n \<notin> item_id ` set (items s)"
  shows "handleRealtimeChange (UPDATE n) s = s \<and>
         filter (\<lambda>i. item_id i = item_id n) (items (handleRealtimeChange (UPDATE n) s)) = []"
proof -
  have e: "handleRealtimeChange (UPDATE n) s = s"
    by (rule items_UPDATE_absent [OF assms])
  have "\<forall>i \<in> set (items s). item_id i \<noteq> item_id n"
    using assms by (metis imageI)
  then have "filter (\<lambda>i. item_id i = item_id n) (items s) = []"
    by (simp add: filter_empty_conv)
  with e show ?thesis by simp
qed

text \<open>An update for the id \<open>y\<close> on a list that holds only \<open>a\<close>.\<close>

theorem update_of_absent_id_is_ignored_witness:
  "item_id (sample_item ''y'' 10) \<notin> item_id ` set (items (init_dashboard ''u1''\<lparr>items := [sample_item ''a'' 5]\<rparr>))
   \<and> items (handleRealtimeChange (UPDATE (sample_item ''y'' 10))
        (init_dashboard ''u1''\<lparr>items := [sample_item ''a'' 5]\<rparr>)) = [sample_item ''a'' 5]"
proof -
  let ?s = "init_dashboard ''u1''\<lparr>items := [sample_item ''a'' 5]\<rparr>"
  have h: "item_id (sample_item ''y'' 10) \<notin> item_id ` set (items ?s)"
    by (simp add: sample_item_def)
  from update_of_absent_id_is_ignored [OF h] h show ?thesis by simp
qed

text \<open>
  Claim C3 as stated fails: after an \<open>UPDATE\<close> for \<open>y\<close> on the empty store the number of rows
  with id \<open>y\<close> is not one.
\<close>

theorem update_does_not_self_heal:
  "count_list (map item_id
     (items (handleRealtimeChange (UPDATE (sample_item ''y'' 10)) (init_dashboard ''u1'')))) ''y''
   \<noteq> 1"
  by (simp add: handleRealtimeChange_def findIndex_def init_dashboard_def)

subsection \<open>C4: the order of the snapshot\<close>

lemma sorted_apply_operation:
  assumes d: "sorted (map expiry_date (items s))" and f: "operation_in_order x s"
  shows "sorted (map expiry_date (items (apply_operation x s)))"
proof (cases x)
  case (Load r)
  with d f show ?thesis
    by (cases "error r") (auto simp: loadItems_def)
next
  case (Event p)
  show ?thesis
  proof (cases p)
    case (INSERT n)
    with Event d f show ?thesis by (simp add: items_INSERT sorted_append)
  next
    case (UPDATE n)
    show ?thesis
    proof (cases "item_id n \<in> item_id ` set (items s)")
      case True
      then have ex: "\<exists>x \<in> set (items s). item_id x = item_id n" by auto
      let ?k = "nat (findIndex (\<lambda>i. item_id i = item_id n) (items s))"
      from findIndex_found [OF ex] have k: "?k < length (items s)"
        and m: "item_id (items s ! ?k) = item_id n" by simp_all
      from True have "\<not> (\<forall>x \<in> set (items s). \<not> item_id x = item_id n)"
        by auto
      then have "findIndex (\<lambda>i. item_id i = item_id n) (items s) \<noteq> - 1"
        using findIndex_absent_iff [of "\<lambda>i. item_id i = item_id n" "items s"] by blast
      with f Event UPDATE have "expiry_date (items s ! ?k) = expiry_date n"
        by (simp add: Let_def)
      with k have "map expiry_date ((items s)[?k := n]) = map expiry_date (items s)"
        by (simp add: map_update list_update_same_conv)
      with Event UPDATE d True show ?thesis
        by (simp add: items_UPDATE_present)
    next
      case False
      with Event UPDATE d show ?thesis by (simp add: items_UPDATE_absent)
    qed
  next
    case (DELETE i)
    from d have "sorted (map expiry_date (filter (\<lambda>a. item_id a \<noteq> i) (items s)))"
      by (simp add: sorted_map sorted_wrt_filter)
    with Event DELETE show ?thesis by (simp add: items_DELETE)
  qed
qed

lemma sorted_run:
  "sorted (map expiry_date (items s)) \<Longrightarrow> all_in_order ops s \<Longrightarrow>
   sorted (map expiry_date (items (run ops s)))"
  by (induction ops arbitrary: s) (simp_all add: sorted_apply_operation)

text \<open>
  Claim C4, as amended: the client never sorts. Starting from the empty store, the list is
  ascending by expiry date (ties in any order) after every sequence of operations in which
  each successful load delivers the rows in that order, each \<open>INSERT\<close> carries a date not
  earlier than any date in the list, and each \<open>UPDATE\<close> leaves the date of the row it
  replaces unchanged; \<open>DELETE\<close> keeps the order without any condition.
\<close>

theorem order_kept_without_resorting:
  "all_in_order ops (init_dashboard uid) \<Longrightarrow>
   sorted (map expiry_date (items (run ops (init_dashboard uid))))"
  by (rule sorted_run) (simp_all add: init_dashboard_def)

text \<open>
  A session that meets the condition. The load delivers two rows of the same date with the
  greater id first, and a second row with the id \<open>b\<close> and a later date; the update for \<open>b\<close>
  replaces the first of the two and carries its date.
\<close>

theorem order_kept_without_resorting_witness:
  "all_in_order
      [Load \<lparr>data = Some [sample_item ''b'' 5, sample_item ''a'' 5, sample_item ''b'' 9],
             error = None\<rparr>,
       Event (INSERT (sample_item ''c'' 9)),
       Event (UPDATE ((sample_item ''b'' 5)\<lparr>quantity := 2\<rparr>)),
       Event (DELETE ''a'')] (init_dashboard ''u1'')
   \<and> map expiry_date (items (run
      [Load \<lparr>data = Some [sample_item ''b'' 5, sample_item ''a'' 5, sample_item ''b'' 9],
             error = None\<rparr>,
       Event (INSERT (sample_item ''c'' 9)),
       Event (UPDATE ((sample_item ''b'' 5)\<lparr>quantity := 2\<rparr>)),
       Event (DELETE ''a'')] (init_dashboard ''u1''))) = [5, 9, 9]
   \<and> sorted (map expiry_date (items (run
      [Load \<lparr>data = Some [sample_item ''b'' 5, sample_item ''a'' 5, sample_item ''b'' 9],
             error = None\<rparr>,
       Event (INSERT (sample_item ''c'' 9)),
       Event (UPDATE ((sample_item ''b'' 5)\<lparr>quantity := 2\<rparr>)),
       Event (DELETE ''a'')] (init_dashboard ''u1''))))"
proof -
  let ?ops = "[Load \<lparr>data = Some [sample_item ''b'' 5, sample_item ''a'' 5, sample_item ''b'' 9],
             error = None\<rparr>,
       Event (INSERT (sample_item ''c'' 9)),
       Event (UPDATE ((sample_item ''b'' 5)\<lparr>quantity := 2\<rparr>)),
       Event (DELETE ''a'')]"
  have f: "all_in_order ?ops (init_dashboard ''u1'')"
    by (simp add: init_dashboard_def loadItems_def handleRealtimeChange_def showToast_def
        findIndex_def sample_item_def)
  have v: "map expiry_date (items (run ?ops (init_dashboard ''u1''))) = [5, 9, 9]"
    by (simp add: init_dashboard_def loadItems_def handleRealtimeChange_def showToast_def
        findIndex_def sample_item_def)
  from f v order_kept_without_resorting [OF f] show ?thesis by blast
qed

text \<open>
  Claim C4 as stated fails, in both of its parts: an \<open>INSERT\<close> of a row that expires
  earlier than the row already in the list leaves the list out of order by date; and a
  load that the record store answers in date order, with two rows of one date in the order
  \<open>b\<close>, \<open>a\<close>, leaves the tie unbroken by id.
\<close>

theorem insert_breaks_order:
  "\<not> sorted (map expiry_date (items (run
       [Event (INSERT (sample_item ''a'' 20)), Event (INSERT (sample_item ''b'' 10))]
       (init_dashboard ''u1''))))
   \<and> \<not> spec_ordered (items (run
       [Event (INSERT (sample_item ''a'' 20)), Event (INSERT (sample_item ''b'' 10))]
       (init_dashboard ''u1'')))
   \<and> sorted (map expiry_date (items (run
       [Load \<lparr>data = Some [sample_item ''b'' 5, sample_item ''a'' 5], error = None\<rparr>]
       (init_dashboard ''u1''))))
   \<and> \<not> spec_ordered (items (run
       [Load \<lparr>data = Some [sample_item ''b'' 5, sample_item ''a'' 5], error = None\<rparr>]
       (init_dashboard ''u1'')))"
  by (simp add: items_INSERT sample_item_def spec_ordered_def init_dashboard_def loadItems_def)

subsection \<open>C10: delete\<close>

text \<open>
  Claim C10: a \<open>DELETE\<close> event for the id \<open>x\<close> keeps exactly the rows whose id is not \<open>x\<close>,
  in their order, so no row with id \<open>x\<close> is left however many there were; if no row has
  id \<open>x\<close> the list is unchanged; and a second \<open>DELETE\<close> for \<open>x\<close> changes nothing more.
\<close>

theorem delete_removes_every_match:
  "items (handleRealtimeChange (DELETE x) s) = filter (\<lambda>i. item_id i \<noteq> x) (items s)
   \<and> (\<forall>i \<in> set (items (handleRealtimeChange (DELETE x) s)). item_id i \<noteq> x)
   \<and> ((\<forall>i \<in> set (items s). item_id i \<noteq> x) \<longrightarrow> items (handleRealtimeChange (DELETE x) s) = items s)
   \<and> items (handleRealtimeChange (DELETE x) (handleRealtimeChange (DELETE x) s))
       = items (handleRealtimeChange (DELETE x) s)"
  by (simp add: items_DELETE filter_id_conv)

text \<open>A list with two rows of id \<open>x\<close>, and a delete for an id that is absent.\<close>

theorem delete_removes_every_match_witness:
  "items (handleRealtimeChange (DELETE ''x'')
      (init_dashboard ''u1''\<lparr>items := [sample_item ''x'' 3, sample_item ''y'' 4, sample_item ''x'' 9]\<rparr>))
     = [sample_item ''y'' 4]
   \<and> ''x'' \<notin> set (map item_id (items (handleRealtimeChange (DELETE ''x'')
      (init_dashboard ''u1''\<lparr>items := [sample_item ''x'' 3, sample_item ''y'' 4, sample_item ''x'' 9]\<rparr>))))
   \<and> ''z'' \<notin> set (map item_id (items (init_dashboard ''u1''\<lparr>items := [sample_item ''y'' 4]\<rparr>)))
   \<and> items (handleRealtimeChange (DELETE ''z'') (init_dashboard ''u1''\<lparr>items := [sample_item ''y'' 4]\<rparr>))
     = [sample_item ''y'' 4]"
proof -
  let ?s = "init_dashboard ''u1''\<lparr>items := [sample_item ''x'' 3, sample_item ''y'' 4, sample_item ''x'' 9]\<rparr>"
  let ?t = "init_dashboard ''u1''\<lparr>items := [sample_item ''y'' 4]\<rparr>"
  have a: "\<forall>i \<in> set (items ?t). item_id i \<noteq> ''z''"
    by (simp add: sample_item_def)
  have b: "item_id (sample_item ''x'' 3) = ''x''" "item_id (sample_item ''x'' 9) = ''x''"
    "item_id (sample_item ''y'' 4) = ''y''"
    by (simp_all add: sample_item_def)
  from delete_removes_every_match [of "''x''" ?s] delete_removes_every_match [of "''z''" ?t] a b
  show ?thesis by simp
qed

section \<open>Properties of the date arithmetic\<close>

lemma msPerDay_pos: "0 < msPerDay"
  by (simp add: msPerDay_def)

text \<open>
  Where the zone has the offset \<open>c\<close>, \<open>setHours0\<close> gives the instant at or before its
  argument at which the local clock, \<open>c\<close> ahead of UTC, shows midnight.
\<close>

lemma setHours0_offset_is:
  assumes "offset_is z c t"
  shows "setHours0 z t = t - (t + c) mod msPerDay"
proof -
  from assms have u: "offset_at_utc z t = c"
    and l: "offset_at_local z (Day (t + c) * msPerDay) = c"
    by (simp_all add: offset_is_def)
  have "setHours0 z t = Day (t + c) * msPerDay - c"
    by (simp add: setHours0_def UTC_def LocalTime_def u l)
  also have "Day (t + c) * msPerDay = (t + c) - (t + c) mod msPerDay"
    by (simp add: Day_def minus_mod_eq_div_mult)
  finally show ?thesis by simp
qed

lemma offset_is_fixed_zone: "offset_is (fixed_zone c) c t"
  by (simp add: offset_is_def fixed_zone_def)

lemma setHours0_midnight:
  assumes "offset_is z c t"
  shows "(setHours0 z t + c) mod msPerDay = 0 \<and> setHours0 z t \<le> t
    \<and> t < setHours0 z t + msPerDay"
proof -
  have "setHours0 z t + c = (t + c) - (t + c) mod msPerDay"
    by (simp add: setHours0_offset_is [OF assms])
  also have "\<dots> = msPerDay * ((t + c) div msPerDay)"
    by (rule minus_mod_eq_mult_div)
  finally have a: "(setHours0 z t + c) mod msPerDay = 0"
    by simp
  have "0 \<le> (t + c) mod msPerDay" "(t + c) mod msPerDay < msPerDay"
    using msPerDay_pos by simp_all
  then have "setHours0 z t \<le> t" "t < setHours0 z t + msPerDay"
    by (simp_all add: setHours0_offset_is [OF assms])
  with a show ?thesis by simp
qed


lemma setHours0_diff_dvd:
  assumes "offset_is z c a" and "offset_is z c b"
  shows "msPerDay dvd setHours0 z a - setHours0 z b"
proof -
  have "msPerDay dvd setHours0 z a + c" "msPerDay dvd setHours0 z b + c"
    using setHours0_midnight [OF assms(1)] setHours0_midnight [OF assms(2)]
    by (simp_all add: dvd_eq_mod_eq_0)
  then have "msPerDay dvd (setHours0 z a + c) - (setHours0 z b + c)"
    by (rule dvd_diff)
  then show ?thesis by simp
qed


lemma Math_ceil_div_multiple: "b \<noteq> 0 \<Longrightarrow> Math_ceil_div (q * b) b = q"
proof -
  assume b: "b \<noteq> 0"
  have "(- (q * b)) div b = ((- q) * b) div b" by simp
  also have "\<dots> = - q"
    using b by (rule nonzero_mult_div_cancel_right)
  finally show ?thesis by (simp add: Math_ceil_div_def)
qed

lemma daysUntilExpiry_mult:
  assumes "offset_is z c now" and "offset_is z c (newDate e)"
  shows "daysUntilExpiry z now e * msPerDay = setHours0 z (newDate e) - setHours0 z now"
proof -
  from setHours0_diff_dvd [OF assms(2) assms(1)]
  obtain q where q: "setHours0 z (newDate e) - setHours0 z now = q * msPerDay"
    by (auto simp: dvd_def mult.commute)
  have "daysUntilExpiry z now e
      = Math_ceil_div (setHours0 z (newDate e) - setHours0 z now) msPerDay"
    by (simp add: daysUntilExpiry_def Let_def msPerDay_def)
  also have "\<dots> = q"
    using msPerDay_pos by (simp only: q) (simp add: Math_ceil_div_multiple)
  finally show ?thesis using q by simp
qed

lemma days_from_utc_midnight: "daysUntilExpiry (fixed_zone 0) 0 e = e"
proof -
  have "daysUntilExpiry (fixed_zone 0) 0 e * msPerDay
      = setHours0 (fixed_zone 0) (newDate e) - setHours0 (fixed_zone 0) 0"
    by (rule daysUntilExpiry_mult [OF offset_is_fixed_zone offset_is_fixed_zone])
  also have "\<dots> = e * msPerDay"
    by (simp add: setHours0_offset_is [OF offset_is_fixed_zone] newDate_def)
  finally show ?thesis using msPerDay_pos by simp
qed



subsection \<open>C7: the day count\<close>




subsection \<open>C6: the tiers\<close>

text \<open>
  Claim C6: the status is decided by the day count: negative gives \<open>expired\<close>, 0 gives
  \<open>today\<close>, 1 to 7 give \<open>soon\<close>, 8 to 30 give \<open>warning\<close>, more than 30 gives \<open>good\<close> (the
  tiers EXPIRED, DUE_TODAY, SOON, UPCOMING and OK of the specification).
\<close>

theorem getExpiryStatus_tiers:
  "(daysUntilExpiry tz now e < 0 \<longrightarrow> status (getExpiryStatus tz now e) = ''expired'')
   \<and> (daysUntilExpiry tz now e = 0 \<longrightarrow> status (getExpiryStatus tz now e) = ''today'')
   \<and> (1 \<le> daysUntilExpiry tz now e \<and> daysUntilExpiry tz now e \<le> 7
        \<longrightarrow> status (getExpiryStatus tz now e) = ''soon'')
   \<and> (8 \<le> daysUntilExpiry tz now e \<and> daysUntilExpiry tz now e \<le> 30
        \<longrightarrow> status (getExpiryStatus tz now e) = ''warning'')
   \<and> (30 < daysUntilExpiry tz now e \<longrightarrow> status (getExpiryStatus tz now e) = ''good'')"
  by (simp add: getExpiryStatus_def Let_def)

text \<open>
  The boundary values -1, 0, 1, 7, 8, 30 and 31, each reached by an expiry date, in the
  zone of UTC at the first instant of the epoch.
\<close>

theorem getExpiryStatus_tiers_witness:
  "daysUntilExpiry (fixed_zone 0) 0 (- 1) = - 1
   \<and> status (getExpiryStatus (fixed_zone 0) 0 (- 1)) = ''expired''
   \<and> daysUntilExpiry (fixed_zone 0) 0 0 = 0
   \<and> status (getExpiryStatus (fixed_zone 0) 0 0) = ''today''
   \<and> daysUntilExpiry (fixed_zone 0) 0 1 = 1
   \<and> status (getExpiryStatus (fixed_zone 0) 0 1) = ''soon''
   \<and> daysUntilExpiry (fixed_zone 0) 0 7 = 7
   \<and> status (getExpiryStatus (fixed_zone 0) 0 7) = ''soon''
   \<and> daysUntilExpiry (fixed_zone 0) 0 8 = 8
   \<and> status (getExpiryStatus (fixed_zone 0) 0 8) = ''warning''
   \<and> daysUntilExpiry (fixed_zone 0) 0 30 = 30
   \<and> status (getExpiryStatus (fixed_zone 0) 0 30) = ''warning''
   \<and> daysUntilExpiry (fixed_zone 0) 0 31 = 31
   \<and> status (getExpiryStatus (fixed_zone 0) 0 31) = ''good''"
  using getExpiryStatus_tiers [of "fixed_zone 0" 0 "- 1"] getExpiryStatus_tiers [of "fixed_zone 0" 0 0]
    getExpiryStatus_tiers [of "fixed_zone 0" 0 1] getExpiryStatus_tiers [of "fixed_zone 0" 0 7]
    getExpiryStatus_tiers [of "fixed_zone 0" 0 8] getExpiryStatus_tiers [of "fixed_zone 0" 0 30]
    getExpiryStatus_tiers [of "fixed_zone 0" 0 31]
  by (simp add: days_from_utc_midnight)

section \<open>Properties of the notification scans\<close>

lemma showNotification_granted:
  "notificationPermission n = ''granted'' \<Longrightarrow>
   notificationPermission (showNotification t opts n) = ''granted''
   \<and> map (\<lambda>a. (title a, tag a)) (shown (showNotification t opts n))
       = map (\<lambda>a. (title a, tag a)) (shown n) @ [(t, opt_tag opts)]"
  by (simp add: showNotification_def)

lemma notifyItem_granted:
  assumes "notificationPermission n = ''granted''"
  shows "notificationPermission (notifyItem tz now i n) = ''granted''
   \<and> map (\<lambda>a. (title a, tag a)) (shown (notifyItem tz now i n))
       = map (\<lambda>a. (title a, tag a)) (shown n)
         @ (if daysUntilExpiry tz now (expiry_date i) \<in> {0, 3, 7}
            then [(alert_title (daysUntilExpiry tz now (expiry_date i)), ''expiry-'' @ item_id i)]
            else [])"
  using showNotification_granted [OF assms]
  by (simp add: notifyItem_def Let_def assms alert_title_def)

lemma fold_notifyItem_granted:
  "notificationPermission n = ''granted'' \<Longrightarrow>
   notificationPermission (fold (notifyItem tz now) rows n) = ''granted''
   \<and> map (\<lambda>a. (title a, tag a)) (shown (fold (notifyItem tz now) rows n))
       = map (\<lambda>a. (title a, tag a)) (shown n)
         @ map (\<lambda>i. (alert_title (daysUntilExpiry tz now (expiry_date i)), ''expiry-'' @ item_id i))
             (filter (\<lambda>i. daysUntilExpiry tz now (expiry_date i) \<in> {0, 3, 7}) rows)"
proof (induction rows arbitrary: n)
  case Nil
  then show ?case by simp
next
  case (Cons i rows)
  from notifyItem_granted [OF Cons.prems, of tz now i]
  have g: "notificationPermission (notifyItem tz now i n) = ''granted''"
    and l: "map (\<lambda>a. (title a, tag a)) (shown (notifyItem tz now i n))
       = map (\<lambda>a. (title a, tag a)) (shown n)
         @ (if daysUntilExpiry tz now (expiry_date i) \<in> {0, 3, 7}
            then [(alert_title (daysUntilExpiry tz now (expiry_date i)), ''expiry-'' @ item_id i)]
            else [])"
    by simp_all
  from Cons.IH [OF g] l show ?case by simp
qed

lemma checkExpiringItems_granted:
  assumes "notificationPermission n = ''granted''"
  shows "notificationPermission (checkExpiringItems tz now user r n) = ''granted''
   \<and> map (\<lambda>a. (title a, tag a)) (shown (checkExpiringItems tz now user r n))
       = map (\<lambda>a. (title a, tag a)) (shown n)
         @ map (\<lambda>i. (alert_title (daysUntilExpiry tz now (expiry_date i)), ''expiry-'' @ item_id i))
             (due_rows tz now user r)"
  using fold_notifyItem_granted [OF assms] assms
  by (simp add: checkExpiringItems_def due_rows_def split: option.splits)

lemma length_due_rows: "length (due_rows tz now user r) = due tz now user r"
  by (simp add: due_rows_def due_def split: option.splits)

lemma scans_granted:
  "notificationPermission n = ''granted'' \<Longrightarrow>
   map (\<lambda>a. (title a, tag a)) (shown (scans tz ss n))
     = map (\<lambda>a. (title a, tag a)) (shown n)
       @ concat (map (\<lambda>(now, user, r).
           map (\<lambda>i. (alert_title (daysUntilExpiry tz now (expiry_date i)), ''expiry-'' @ item_id i))
             (due_rows tz now user r)) ss)"
proof (induction ss arbitrary: n)
  case Nil
  then show ?case by simp
next
  case (Cons x ss)
  obtain now user r where x: "x = (now, user, r)" by (cases x)
  from checkExpiringItems_granted [OF Cons.prems, of tz now user r]
  have g: "notificationPermission (checkExpiringItems tz now user r n) = ''granted''"
    and l: "map (\<lambda>a. (title a, tag a)) (shown (checkExpiringItems tz now user r n))
       = map (\<lambda>a. (title a, tag a)) (shown n)
         @ map (\<lambda>i. (alert_title (daysUntilExpiry tz now (expiry_date i)), ''expiry-'' @ item_id i))
             (due_rows tz now user r)"
    by simp_all
  from Cons.IH [OF g] l x show ?case by simp
qed

lemma scans_granted_length:
  assumes "notificationPermission n = ''granted''"
  shows "length (shown (scans tz ss n))
     = length (shown n) + sum_list (map (\<lambda>(now, user, r). due tz now user r) ss)"
proof -
  have "length (shown (scans tz ss n))
      = length (map (\<lambda>a. (title a, tag a)) (shown (scans tz ss n)))"
    by simp
  also have "\<dots> = length (shown n)
      + length (concat (map (\<lambda>(now, user, r).
           map (\<lambda>i. (alert_title (daysUntilExpiry tz now (expiry_date i)), ''expiry-'' @ item_id i))
             (due_rows tz now user r)) ss))"
    by (simp only: scans_granted [OF assms]) simp
  also have "length (concat (map (\<lambda>(now, user, r).
           map (\<lambda>i. (alert_title (daysUntilExpiry tz now (expiry_date i)), ''expiry-'' @ item_id i))
             (due_rows tz now user r)) ss))
      = sum_list (map (\<lambda>(now, user, r). due tz now user r) ss)"
    by (induction ss) (auto simp: length_due_rows)
  finally show ?thesis .
qed

lemma notifyItem_not_granted:
  "notificationPermission n \<noteq> ''granted'' \<Longrightarrow> notifyItem tz now i n = n"
  by (simp add: notifyItem_def showNotification_def Let_def)

lemma fold_notifyItem_not_granted:
  "notificationPermission n \<noteq> ''granted'' \<Longrightarrow> fold (notifyItem tz now) rows n = n"
  by (induction rows) (simp_all add: notifyItem_not_granted)

lemma checkExpiringItems_not_granted:
  "notificationPermission n \<noteq> ''granted'' \<Longrightarrow> checkExpiringItems tz now user r n = n"
  by (simp add: checkExpiringItems_def fold_notifyItem_not_granted split: option.splits)

lemma scans_not_granted:
  "notificationPermission n \<noteq> ''granted'' \<Longrightarrow> scans tz ss n = n"
  by (induction ss) (auto simp: checkExpiringItems_not_granted)

subsection \<open>C5: repeated scans\<close>

text \<open>
  Claim C5, as amended: alerts are not remembered between scans. While the permission is
  granted, every scan raises, in the order of the rows, one alert for each row that is at
  0, 3 or 7 days at that scan, with the title of that threshold and the tag \<open>expiry-\<close>
  followed by the id of the row, the same tag at every scan and for every threshold; so the
  number of alerts raised by a sequence of scans is the sum over the scans of the rows due
  at each. While the permission is not granted no alert is raised.
\<close>

theorem every_scan_alerts_again:
  "(notificationPermission n = ''granted'' \<longrightarrow>
      map (\<lambda>a. (title a, tag a)) (shown (scans tz ss n))
        = map (\<lambda>a. (title a, tag a)) (shown n)
          @ concat (map (\<lambda>(now, user, r).
              map (\<lambda>i. (alert_title (daysUntilExpiry tz now (expiry_date i)),
                         ''expiry-'' @ item_id i))
                (due_rows tz now user r)) ss)
      \<and> length (shown (scans tz ss n))
        = length (shown n) + sum_list (map (\<lambda>(now, user, r). due tz now user r) ss))
   \<and> (notificationPermission n \<noteq> ''granted'' \<longrightarrow> shown (scans tz ss n) = shown n)"
  by (simp add: scans_granted scans_granted_length scans_not_granted)

text \<open>
  Three scans of the same two rows, one of them at 7 days: three alerts with the same tag;
  and one scan without the permission: none.
\<close>

theorem every_scan_alerts_again_witness:
  "notificationPermission \<lparr>notificationPermission = ''granted'', shown = []\<rparr> = ''granted''
   \<and> map (\<lambda>a. (title a, tag a)) (shown (scans (fixed_zone 0)
        [(0, Some ''u1'', \<lparr>data = Some [sample_item ''x'' 7, sample_item ''y'' 5], error = None\<rparr>),
         (0, Some ''u1'', \<lparr>data = Some [sample_item ''x'' 7, sample_item ''y'' 5], error = None\<rparr>),
         (0, Some ''u1'', \<lparr>data = Some [sample_item ''x'' 7, sample_item ''y'' 5], error = None\<rparr>)]
        \<lparr>notificationPermission = ''granted'', shown = []\<rparr>))
      = [(''Upcoming Expiry'', ''expiry-x''), (''Upcoming Expiry'', ''expiry-x''),
         (''Upcoming Expiry'', ''expiry-x'')]
   \<and> length (shown (scans (fixed_zone 0)
        [(0, Some ''u1'', \<lparr>data = Some [sample_item ''x'' 7, sample_item ''y'' 5], error = None\<rparr>),
         (0, Some ''u1'', \<lparr>data = Some [sample_item ''x'' 7, sample_item ''y'' 5], error = None\<rparr>),
         (0, Some ''u1'', \<lparr>data = Some [sample_item ''x'' 7, sample_item ''y'' 5], error = None\<rparr>)]
        \<lparr>notificationPermission = ''granted'', shown = []\<rparr>)) = 3
   \<and> notificationPermission \<lparr>notificationPermission = ''default'', shown = []\<rparr> \<noteq> ''granted''
   \<and> shown (scans (fixed_zone 0)
        [(0, Some ''u1'', \<lparr>data = Some [sample_item ''x'' 7, sample_item ''y'' 5], error = None\<rparr>)]
        \<lparr>notificationPermission = ''default'', shown = []\<rparr>) = []"
proof -
  let ?r = "\<lparr>data = Some [sample_item ''x'' 7, sample_item ''y'' 5], error = None\<rparr>"
  let ?g = "\<lparr>notificationPermission = ''granted'', shown = []\<rparr>"
  let ?d = "\<lparr>notificationPermission = ''default'', shown = []\<rparr>"
  have d: "due (fixed_zone 0) 0 (Some ''u1'') ?r = 1"
    by (simp add: due_def days_from_utc_midnight sample_item_def)
  have e: "map (\<lambda>i. (alert_title (daysUntilExpiry (fixed_zone 0) 0 (expiry_date i)),
                      ''expiry-'' @ item_id i)) (due_rows (fixed_zone 0) 0 (Some ''u1'') ?r)
      = [(''Upcoming Expiry'', ''expiry-x'')]"
    by (simp add: due_rows_def days_from_utc_midnight sample_item_def alert_title_def)
  from every_scan_alerts_again [of ?g "fixed_zone 0"
      "[(0, Some ''u1'', ?r), (0, Some ''u1'', ?r), (0, Some ''u1'', ?r)]"]
    every_scan_alerts_again [of ?d "fixed_zone 0" "[(0, Some ''u1'', ?r)]"] d e
  show ?thesis by simp
qed

text \<open>
  Claim C5 as stated fails: two scans six hours apart on the day a row is at 7 days raise
  the 7-day alert for it twice.
\<close>

theorem second_scan_repeats_alert:
  "map tag (shown (scans (fixed_zone 0)
      [(0, Some ''u1'', \<lparr>data = Some [sample_item ''x'' 7], error = None\<rparr>),
       (21600000, Some ''u1'', \<lparr>data = Some [sample_item ''x'' 7], error = None\<rparr>)]
      \<lparr>notificationPermission = ''granted'', shown = []\<rparr>)) = [''expiry-x'', ''expiry-x'']
   \<and> map title (shown (scans (fixed_zone 0)
      [(0, Some ''u1'', \<lparr>data = Some [sample_item ''x'' 7], error = None\<rparr>),
       (21600000, Some ''u1'', \<lparr>data = Some [sample_item ''x'' 7], error = None\<rparr>)]
      \<lparr>notificationPermission = ''granted'', shown = []\<rparr>)) = [''Upcoming Expiry'', ''Upcoming Expiry'']"
proof -
  have a: "daysUntilExpiry (fixed_zone 0) 0 7 = 7" by (rule days_from_utc_midnight)
  have b: "daysUntilExpiry (fixed_zone 0) 21600000 7 = 7"
    by (simp add: daysUntilExpiry_def Let_def setHours0_def UTC_def LocalTime_def Day_def
        fixed_zone_def newDate_def msPerDay_def Math_ceil_div_def)
  show ?thesis
    by (simp add: checkExpiringItems_def notifyItem_def showNotification_def sample_item_def
        a b Let_def)
qed

section \<open>Properties of the import\<close>

lemma toInsertRow_ok:
  "item \<noteq> JNull \<Longrightarrow>
   \<exists>row. toInsertRow uid item = Inr row \<and> row_user_id row = uid
     \<and> (getProp item ''quantity'' = None \<longrightarrow> row_quantity row = JNum 1)"
  by (simp add: toInsertRow_def)

lemma map_throwing_ok:
  "JNull \<notin> set xs \<Longrightarrow>
   \<exists>rows. map_throwing (toInsertRow uid) xs = Inr rows \<and> length rows = length xs
     \<and> (\<forall>k < length xs. row_user_id (rows ! k) = uid
           \<and> (getProp (xs ! k) ''quantity'' = None \<longrightarrow> row_quantity (rows ! k) = JNum 1))"
proof (induction xs)
  case Nil
  then show ?case by simp
next
  case (Cons x xs)
  from Cons.prems have "x \<noteq> JNull" and "JNull \<notin> set xs" by auto
  from toInsertRow_ok [OF \<open>x \<noteq> JNull\<close>, of uid]
  obtain row where row: "toInsertRow uid x = Inr row" "row_user_id row = uid"
    "getProp x ''quantity'' = None \<longrightarrow> row_quantity row = JNum 1"
    by auto
  from Cons.IH [OF \<open>JNull \<notin> set xs\<close>]
  obtain rows where rows: "map_throwing (toInsertRow uid) xs = Inr rows"
    "length rows = length xs"
    "\<forall>k < length xs. row_user_id (rows ! k) = uid
           \<and> (getProp (xs ! k) ''quantity'' = None \<longrightarrow> row_quantity (rows ! k) = JNum 1)"
    by auto
  have "map_throwing (toInsertRow uid) (x # xs) = Inr (row # rows)"
    by (simp add: row rows)
  moreover have "length (row # rows) = length (x # xs)"
    by (simp add: rows)
  moreover have "\<forall>k < length (x # xs). row_user_id ((row # rows) ! k) = uid
           \<and> (getProp ((x # xs) ! k) ''quantity'' = None \<longrightarrow> row_quantity ((row # rows) ! k) = JNum 1)"
  proof (intro allI impI)
    fix k assume "k < length (x # xs)"
    then show "row_user_id ((row # rows) ! k) = uid
           \<and> (getProp ((x # xs) ! k) ''quantity'' = None \<longrightarrow> row_quantity ((row # rows) ! k) = JNum 1)"
      using row rows by (cases k) simp_all
  qed
  ultimately show ?case by blast
qed

lemma remote_inserts_showToast [simp]: "remote_inserts (showToast m t s) = remote_inserts s"
  by (simp add: showToast_def)

lemma toasts_showToast [simp]: "toasts (showToast m t s) = toasts s @ [(m, t)]"
  by (simp add: showToast_def)

subsection \<open>C8: the rows of an import\<close>

text \<open>
  Claim C8: for an imported array (with no \<open>null\<close> element, which would throw), one bulk
  insert is sent with one row per element, in order; every row carries the id of the
  current user as \<open>user_id\<close>, and every row made from an element without a \<open>quantity\<close>
  member has quantity 1.
\<close>

theorem import_sets_owner_and_quantity:
  assumes "JNull \<notin> set xs"
  shows "\<exists>rows.
     remote_inserts (handleImport (Some (Parsed (JArr xs))) insert_error s)
       = remote_inserts s @ [rows]
     \<and> length rows = length xs
     \<and> (\<forall>k < length xs. row_user_id (rows ! k) = currentUser_id s
           \<and> (getProp (xs ! k) ''quantity'' = None \<longrightarrow> row_quantity (rows ! k) = JNum 1))"
proof -
  from map_throwing_ok [OF assms, of "currentUser_id s"]
  obtain rows where rows: "map_throwing (toInsertRow (currentUser_id s)) xs = Inr rows"
    "length rows = length xs"
    "\<forall>k < length xs. row_user_id (rows ! k) = currentUser_id s
           \<and> (getProp (xs ! k) ''quantity'' = None \<longrightarrow> row_quantity (rows ! k) = JNum 1)"
    by auto
  have "remote_inserts (handleImport (Some (Parsed (JArr xs))) insert_error s)
       = remote_inserts s @ [rows]"
    by (cases insert_error) (simp_all add: handleImport_def rows Let_def)
  with rows show ?thesis by blast
qed

text \<open>Two records without \<open>quantity\<close>, imported by the user \<open>u1\<close>.\<close>

theorem import_sets_owner_and_quantity_witness:
  "JNull \<notin> set [JObj [(''name'', JStr ''Milk''), (''expiry_date'', JStr ''2025-01-01'')],
                  JObj [(''name'', JStr ''Eggs''), (''expiry_date'', JStr ''2025-02-01'')]]
   \<and> getProp (JObj [(''name'', JStr ''Milk''), (''expiry_date'', JStr ''2025-01-01'')]) ''quantity'' = None
   \<and> getProp (JObj [(''name'', JStr ''Eggs''), (''expiry_date'', JStr ''2025-02-01'')]) ''quantity'' = None
   \<and> map (map row_quantity) (remote_inserts (handleImport (Some (Parsed (JArr
         [JObj [(''name'', JStr ''Milk''), (''expiry_date'', JStr ''2025-01-01'')],
          JObj [(''name'', JStr ''Eggs''), (''expiry_date'', JStr ''2025-02-01'')]])))
         None (init_dashboard ''u1''))) = [[JNum 1, JNum 1]]
   \<and> map (map row_user_id) (remote_inserts (handleImport (Some (Parsed (JArr
         [JObj [(''name'', JStr ''Milk''), (''expiry_date'', JStr ''2025-01-01'')],
          JObj [(''name'', JStr ''Eggs''), (''expiry_date'', JStr ''2025-02-01'')]])))
         None (init_dashboard ''u1''))) = [[''u1'', ''u1'']]"
proof -
  let ?xs = "[JObj [(''name'', JStr ''Milk''), (''expiry_date'', JStr ''2025-01-01'')],
              JObj [(''name'', JStr ''Eggs''), (''expiry_date'', JStr ''2025-02-01'')]]"
  have h: "JNull \<notin> set ?xs" by simp
  have q: "getProp (?xs ! 0) ''quantity'' = None" "getProp (?xs ! 1) ''quantity'' = None"
    by simp_all
  from import_sets_owner_and_quantity [OF h, of None "init_dashboard ''u1''"]
  obtain rows where rows:
    "remote_inserts (handleImport (Some (Parsed (JArr ?xs))) None (init_dashboard ''u1''))
       = remote_inserts (init_dashboard ''u1'') @ [rows]"
    "length rows = length ?xs"
    "\<forall>k < length ?xs. row_user_id (rows ! k) = currentUser_id (init_dashboard ''u1'')
           \<and> (getProp (?xs ! k) ''quantity'' = None \<longrightarrow> row_quantity (rows ! k) = JNum 1)"
    by auto
  from rows(2) obtain r0 r1 where r: "rows = [r0, r1]"
    by (cases rows; cases "tl rows"; auto)
  from rows(3) have "row_user_id (rows ! 0) = ''u1''" "row_user_id (rows ! 1) = ''u1''"
    by (simp_all add: init_dashboard_def)
  moreover from rows(3) q have "row_quantity (rows ! 0) = JNum 1" "row_quantity (rows ! 1) = JNum 1"
    by simp_all
  ultimately have "map row_quantity rows = [JNum 1, JNum 1]" "map row_user_id rows = [''u1'', ''u1'']"
    using r by simp_all
  with rows(1) h q show ?thesis by (simp add: init_dashboard_def)
qed

subsection \<open>C9: a payload that is not an array\<close>

text \<open>
  Claim C9, as amended: for every parsed payload that is not an array, the import sends
  nothing to the record store, leaves the item list unchanged and shows the error toast.
\<close>

theorem non_array_import_rejected:
  assumes "\<not> isArray v"
  shows "remote_inserts (handleImport (Some (Parsed v)) insert_error s) = remote_inserts s
     \<and> items (handleImport (Some (Parsed v)) insert_error s) = items s
     \<and> toasts (handleImport (Some (Parsed v)) insert_error s)
         = toasts s @ [(''Failed to import data'', ''error'')]"
  using assms by (simp add: handleImport_def)

text \<open>A single record that is not wrapped in an array.\<close>

theorem non_array_import_rejected_witness:
  "\<not> isArray (JObj [(''name'', JStr ''Milk'')])
   \<and> remote_inserts (handleImport (Some (Parsed (JObj [(''name'', JStr ''Milk'')]))) None
        (init_dashboard ''u1'')) = []
   \<and> items (handleImport (Some (Parsed (JObj [(''name'', JStr ''Milk'')]))) None
        (init_dashboard ''u1'')) = []
   \<and> toasts (handleImport (Some (Parsed (JObj [(''name'', JStr ''Milk'')]))) None
        (init_dashboard ''u1'')) = [(''Failed to import data'', ''error'')]"
proof -
  have h: "\<not> isArray (JObj [(''name'', JStr ''Milk'')])" by simp
  from non_array_import_rejected [OF h, of None "init_dashboard ''u1''"] h
  show ?thesis by (simp add: init_dashboard_def)
qed

text \<open>
  Claim C9 as stated fails: only \<open>Array.isArray\<close> is tested, so an array whose element
  is a number, which is not an array of records, is turned into a row and sent.
\<close>

theorem array_of_non_records_is_sent:
  "\<not> isArrayOfRecords (JArr [JNum 5])
   \<and> remote_inserts (handleImport (Some (Parsed (JArr [JNum 5]))) None (init_dashboard ''u1''))
      = [[\<lparr>row_name = None, row_category = None, row_quantity = JNum 1,
           row_expiry_date = None, row_notes = None, row_user_id = ''u1''\<rparr>]]
   \<and> remote_inserts (handleImport (Some (Parsed (JArr [JNum 5]))) None (init_dashboard ''u1''))
      \<noteq> remote_inserts (init_dashboard ''u1'')"
  by (simp add: handleImport_def toInsertRow_def init_dashboard_def Let_def)


end
